theory Spec2Isabelle
  imports Complex_Main "HOL-Library.AList"
begin

section \<open>Values, exceptions and the process state\<close>

text \<open>
  The model covers the CPU-burn part of \<^verbatim>\<open>main.py\<close> (lines 129 to 160): the globals
  \<^verbatim>\<open>burn_level\<close> and \<^verbatim>\<open>burn_lock\<close>, the background loop \<^verbatim>\<open>cpu_burner\<close>, the
  \<^verbatim>\<open>/burn\<close> handler, and the helper \<^verbatim>\<open>log\<close> (lines 21 to 30) that the handler calls.
  Seconds and gauge values are real numbers. One float operation of the loop rounds: the
  deadline of line 147, which is computed as Python computes it, in IEEE 754 doubles.
\<close>

datatype pyval = PyNone | PyInt int | PyStr string | PyFloat real

text \<open>
  Exceptions. \<open>TypeError\<close> and \<open>AttributeError\<close> are Python's own;
  \<open>RequestValidationError\<close> is what FastAPI raises, before the handler runs, when a
  query parameter violates the constraints declared with \<^verbatim>\<open>Query(...)\<close>; \<open>Fault\<close> stands
  for any exception raised by a collaborator call inside the loop.
\<close>

datatype exn =
    TypeError string
  | AttributeError string
  | RequestValidationError
  | Fault string

text \<open>Keyword arguments and dict literals keep their order: association lists.\<close>

type_synonym kwargs = "(string \<times> pyval) list"

text \<open>
  How a call ends: it returns a value, raises, or cannot proceed because it waits for
  \<^verbatim>\<open>burn_lock\<close>.
\<close>

datatype 'a outcome = Returned 'a | Raised exn | Blocked

text \<open>
  The program counter of the thread that runs \<^verbatim>\<open>cpu_burner\<close>, one value per statement
  of the loop body:
  \<^item> \<open>Acquire\<close>: line 136, entering \<^verbatim>\<open>with burn_lock\<close>;
  \<^item> \<open>ReadLevel\<close>: line 137, \<^verbatim>\<open>lvl = burn_level\<close>;
  \<^item> \<open>Release\<close>: leaving the \<^verbatim>\<open>with\<close> block;
  \<^item> \<open>SetCpuGauge\<close>: line 138; \<open>SetRandomGauge\<close>: line 139;
  \<^item> \<open>TestLevel\<close>: line 141; \<open>IdleSleep\<close>: lines 142 and 143;
  \<^item> \<open>SetDeadline\<close>: line 147; \<open>Spin\<close>: lines 148 and 149; \<open>CoolSleep\<close>: line 150;
  \<^item> \<open>Terminated e\<close>: the exception \<open>e\<close> left \<^verbatim>\<open>cpu_burner\<close> and the thread is dead.
\<close>

datatype pc =
    Acquire | ReadLevel | Release
  | SetCpuGauge | SetRandomGauge
  | TestLevel | IdleSleep
  | SetDeadline | Spin | CoolSleep
  | Terminated exn

text \<open>What the loop does to time: a call of \<^verbatim>\<open>time.sleep\<close>, or a reading of \<^verbatim>\<open>time.time()\<close>.\<close>

datatype effect = Sleep real | Clock real

text \<open>
  The process state: the module's globals (\<open>APP_NAME\<close>, \<open>burn_level\<close>, \<open>burn_lock\<close>, the
  two gauges, the calls the \<open>logger\<close> has received as pairs of method name and record)
  and the burner thread's program counter, locals (\<open>lvl\<close>, and \<open>end_time\<close> for the
  local \<^verbatim>\<open>end\<close>) and the \<open>effects\<close> it has performed, oldest first.
\<close>

record state =
  APP_NAME :: string
  burn_level :: int
  burn_lock :: bool
  CPU_BURN :: real
  RANDOM_GAUGE :: real
  logger :: "(string \<times> kwargs) list"
  pc :: pc
  lvl :: int
  end_time :: real
  effects :: "effect list"

text \<open>
  The state after the module is imported: level 0 (line 130), the lock free, both gauges
  at the 0 a new Prometheus gauge holds, nothing logged, the burner thread started
  (line 152) and about to enter its first iteration.
\<close>

definition init_state :: "string \<Rightarrow> state" where
  "init_state app =
     \<lparr>APP_NAME = app, burn_level = 0, burn_lock = False, CPU_BURN = 0, RANDOM_GAUGE = 0,
      logger = [], pc = Acquire, lvl = 0, end_time = 0, effects = []\<rparr>"

section \<open>Calling \<^verbatim>\<open>log\<close>\<close>

text \<open>
  Python binds the arguments of a call to the parameters of
  \<^verbatim>\<open>def log(level: str, msg: str, **fields)\<close> as follows: the positional arguments fill
  the named parameters from the left; a keyword argument whose name is a named parameter
  fills that parameter, and is a \<open>TypeError\<close> (\<^verbatim>\<open>got multiple values for argument\<close>)
  when the parameter already has a value; every other keyword argument goes to
  \<^verbatim>\<open>**fields\<close>; after the keywords, too many positional arguments are a \<open>TypeError\<close>,
  and so is a named parameter left without a value. \<open>bind_keywords\<close> returns the bound
  parameters and the extra keywords.
\<close>

fun bind_keywords :: "string list \<Rightarrow> kwargs \<Rightarrow> kwargs \<Rightarrow> kwargs \<Rightarrow> exn + (kwargs \<times> kwargs)" where
  "bind_keywords params bound extra [] = Inr (bound, extra)"
| "bind_keywords params bound extra ((k, v) # kws) =
     (if k \<in> set params then
        (if k \<in> set (map fst bound)
         then Inl (TypeError (''got multiple values for argument '' @ k))
         else bind_keywords params (bound @ [(k, v)]) extra kws)
      else bind_keywords params bound (extra @ [(k, v)]) kws)"

definition bind_args :: "string list \<Rightarrow> pyval list \<Rightarrow> kwargs \<Rightarrow> exn + (kwargs \<times> kwargs)" where
  "bind_args params pos kws =
     (case bind_keywords params (zip params pos) [] kws of
        Inl e \<Rightarrow> Inl e
      | Inr (bound, extra) \<Rightarrow>
          (if length params < length pos
           then Inl (TypeError ''too many positional arguments'')
           else if set params \<subseteq> set (map fst bound)
           then Inr (bound, extra)
           else Inl (TypeError ''missing required argument'')))"

text \<open>\<^verbatim>\<open>str.lower()\<close> on ASCII text.\<close>

definition lower_char :: "char \<Rightarrow> char" where
  "lower_char c =
     (let k = (of_char c :: nat) in if 65 \<le> k \<and> k \<le> 90 then char_of (k + 32) else c)"

definition lower :: "string \<Rightarrow> string" where
  "lower cs = map lower_char cs"

text \<open>
  A dict literal \<^verbatim>\<open>{k1: v1, ..., **fields}\<close>: a later key replaces the value of an equal
  earlier key and keeps its place.
\<close>

definition dict_literal :: "kwargs \<Rightarrow> kwargs" where
  "dict_literal items = foldl (\<lambda>d (k, v). AList.update k v d) [] items"

text \<open>
  \<^verbatim>\<open>getattr(logger, name, logger.info)\<close>, for the names the modelled code passes: the
  logging methods that take the line as their only argument are found, and a name that
  is no attribute of the logger gives the default \<^verbatim>\<open>logger.info\<close>. The other attributes
  of a \<^verbatim>\<open>Logger\<close> (\<^verbatim>\<open>log\<close>, \<^verbatim>\<open>name\<close>, \<^verbatim>\<open>handlers\<close> and the like) are outside the model:
  here they are treated as absent. The handlers of lines 59 to 159 call \<^verbatim>\<open>log\<close> with the
  literals \<^verbatim>\<open>"info"\<close>, \<^verbatim>\<open>"warning"\<close> and \<^verbatim>\<open>"error"\<close>.
\<close>

definition logger_methods :: "string list" where
  "logger_methods =
     [''debug'', ''info'', ''warning'', ''warn'', ''error'', ''exception'', ''critical'', ''fatal'']"

definition getattr_logger :: "string \<Rightarrow> string" where
  "getattr_logger name = (if name \<in> set logger_methods then name else ''info'')"

text \<open>
  The body of \<^verbatim>\<open>log\<close> (lines 22 to 30), with \<open>ts\<close> the value \<^verbatim>\<open>time.time()\<close> returns.
  The record is kept as the dict that \<^verbatim>\<open>json.dumps\<close> would print; the logger receives
  one call, of the method looked up by the lower-cased level. A level that is no string
  has no \<^verbatim>\<open>lower\<close>.
\<close>

definition log_body :: "pyval \<Rightarrow> pyval \<Rightarrow> kwargs \<Rightarrow> real \<Rightarrow> state \<Rightarrow> unit outcome \<times> state" where
  "log_body level msg flds ts s =
     (let record = dict_literal
            ([(''app'', PyStr (APP_NAME s)), (''level'', level), (''msg'', msg),
              (''ts'', PyFloat ts)] @ flds)
      in case level of
           PyStr l \<Rightarrow>
             (Returned (), s\<lparr>logger := logger s @ [(getattr_logger (lower l), record)]\<rparr>)
         | _ \<Rightarrow> (Raised (AttributeError ''lower''), s))"

text \<open>
  A call \<^verbatim>\<open>log(*pos, **kws)\<close>: the arguments are bound first, and the body runs only
  when the binding succeeds.
\<close>

definition log :: "pyval list \<Rightarrow> kwargs \<Rightarrow> real \<Rightarrow> state \<Rightarrow> unit outcome \<times> state" where
  "log pos kws ts s =
     (case bind_args [''level'', ''msg''] pos kws of
        Inl e \<Rightarrow> (Raised e, s)
      | Inr (bound, flds) \<Rightarrow>
          (case (map_of bound ''level'', map_of bound ''msg'') of
             (Some level, Some msg) \<Rightarrow> log_body level msg flds ts s
           | _ \<Rightarrow> (Raised (TypeError ''missing required argument''), s)))"

section \<open>The \<^verbatim>\<open>/burn\<close> handler\<close>

type_synonym response = kwargs

text \<open>
  The handler body (lines 156 to 160), called with an integer \<open>level\<close>. It waits while
  the lock is held. Otherwise it takes the lock, stores the level, releases the lock,
  calls \<^verbatim>\<open>log("warning", "CPU burn updated", endpoint="/burn", level=level)\<close> and, when
  that call returns, answers with the stored level.
\<close>

definition burn :: "int \<Rightarrow> real \<Rightarrow> state \<Rightarrow> response outcome \<times> state" where
  "burn level ts s =
     (if burn_lock s then (Blocked, s)
      else
        let s1 = s\<lparr>burn_lock := True\<rparr>;
            s2 = s1\<lparr>burn_level := level\<rparr>;
            s3 = s2\<lparr>burn_lock := False\<rparr>
        in case log [PyStr ''warning'', PyStr ''CPU burn updated'']
                    [(''endpoint'', PyStr ''/burn''), (''level'', PyInt level)] ts s3 of
             (Returned u, s4) \<Rightarrow> (Returned [(''burn_level'', PyInt (burn_level s4))], s4)
           | (Raised e, s4) \<Rightarrow> (Raised e, s4)
           | (Blocked, s4) \<Rightarrow> (Blocked, s4))"

text \<open>
  The declaration \<^verbatim>\<open>level: int = Query(0, ge=0, le=10)\<close> of line 155: the default and
  the two bounds FastAPI checks before it calls the handler.
\<close>

record query =
  q_default :: int
  q_ge :: int
  q_le :: int

definition level_query :: query where
  "level_query = \<lparr>q_default = 0, q_ge = 0, q_le = 10\<rparr>"

text \<open>
  A request \<^verbatim>\<open>GET /burn\<close>, with \<open>arg\<close> the integer given as \<^verbatim>\<open>level\<close> (or \<open>None\<close> when the
  parameter is absent): FastAPI passes the default for an absent parameter, rejects a
  value outside the declared bounds without calling the handler, and calls the handler
  otherwise.
\<close>

definition burn_endpoint :: "int option \<Rightarrow> real \<Rightarrow> state \<Rightarrow> response outcome \<times> state" where
  "burn_endpoint arg ts s =
     (case arg of
        None \<Rightarrow> burn (q_default level_query) ts s
      | Some n \<Rightarrow>
          (if q_ge level_query \<le> n \<and> n \<le> q_le level_query
           then burn n ts s
           else (Raised RequestValidationError, s)))"

section \<open>Doubles\<close>

text \<open>
  A Python float is an IEEE 754 double: 53 significant bits, and every arithmetic
  operation returns the double nearest to the exact result, a tie going to the neighbour
  whose last bit is even. \<open>ulp x\<close> is the distance between neighbouring doubles around
  \<open>x\<close>, and \<open>double x\<close> the double nearest to \<open>x\<close>. The exponent is not bounded here:
  overflow and subnormal numbers are not modelled (a clock reading and 0.02 seconds times
  a level are far from both).
\<close>

definition round_half_even :: "real \<Rightarrow> int" where
  "round_half_even y =
     (let f = \<lfloor>y\<rfloor>; r = y - of_int f
      in if r < 1 / 2 then f else if 1 / 2 < r then f + 1 else if even f then f else f + 1)"

definition ulp :: "real \<Rightarrow> real" where
  "ulp x = 2 powi (\<lfloor>Transcendental.log 2 \<bar>x\<bar>\<rfloor> - 52)"

definition double :: "real \<Rightarrow> real" where
  "double x = (if x = 0 then 0 else of_int (round_half_even (x / ulp x)) * ulp x)"

text \<open>The float operations \<^verbatim>\<open>*\<close> and \<^verbatim>\<open>+\<close>.\<close>

definition float_mul :: "real \<Rightarrow> real \<Rightarrow> real" where
  "float_mul a b = double (a * b)"

definition float_add :: "real \<Rightarrow> real \<Rightarrow> real" where
  "float_add a b = double (a + b)"

text \<open>
  The right-hand side of line 147, \<^verbatim>\<open>time.time() + (0.02 * lvl)\<close>, for the clock reading
  \<open>t\<close> and the level \<open>l\<close>: the literal is the double nearest to 0.02, the level becomes a
  float without rounding (it is far below \<open>2 ^ 53\<close>), the product is rounded, and the sum
  is rounded.
\<close>

definition deadline :: "real \<Rightarrow> int \<Rightarrow> real" where
  "deadline t l = float_add t (float_mul (double 0.02) (real_of_int l))"

section \<open>The burner thread\<close>

text \<open>
  What the environment hands to one step of the thread: the value \<^verbatim>\<open>random.random()\<close>
  returns, the value \<^verbatim>\<open>time.time()\<close> returns, and the exception the step's library
  call raises, if it raises. A step uses the parts its statement needs.
\<close>

record input =
  sample :: real
  now :: real
  fault :: "exn option"

text \<open>
  One step of \<^verbatim>\<open>cpu_burner\<close> (lines 135 to 150). The thread waits at line 136 while the
  lock is held. Line 147 stores the float sum \<open>deadline\<close> of the clock reading and 0.02
  times the level; line 148 compares a new clock reading with it. The calls of \<^verbatim>\<open>CPU_BURN.set\<close>, \<^verbatim>\<open>random.random\<close> and
  \<^verbatim>\<open>RANDOM_GAUGE.set\<close>, \<^verbatim>\<open>time.sleep\<close> and \<^verbatim>\<open>time.time\<close> may raise; the function has no
  \<^verbatim>\<open>try\<close>, so an exception leaves it and the thread ends. A dead thread makes no step.
\<close>

definition step :: "input \<Rightarrow> state \<Rightarrow> state" where
  "step i s =
     (case pc s of
        Acquire \<Rightarrow> (if burn_lock s then s else s\<lparr>burn_lock := True, pc := ReadLevel\<rparr>)
      | ReadLevel \<Rightarrow> s\<lparr>lvl := burn_level s, pc := Release\<rparr>
      | Release \<Rightarrow> s\<lparr>burn_lock := False, pc := SetCpuGauge\<rparr>
      | SetCpuGauge \<Rightarrow>
          (case fault i of
             Some e \<Rightarrow> s\<lparr>pc := Terminated e\<rparr>
           | None \<Rightarrow> s\<lparr>CPU_BURN := real_of_int (lvl s), pc := SetRandomGauge\<rparr>)
      | SetRandomGauge \<Rightarrow>
          (case fault i of
             Some e \<Rightarrow> s\<lparr>pc := Terminated e\<rparr>
           | None \<Rightarrow> s\<lparr>RANDOM_GAUGE := sample i, pc := TestLevel\<rparr>)
      | TestLevel \<Rightarrow> (if lvl s \<le> 0 then s\<lparr>pc := IdleSleep\<rparr> else s\<lparr>pc := SetDeadline\<rparr>)
      | IdleSleep \<Rightarrow>
          (case fault i of
             Some e \<Rightarrow> s\<lparr>pc := Terminated e\<rparr>
           | None \<Rightarrow> s\<lparr>effects := effects s @ [Sleep 0.2], pc := Acquire\<rparr>)
      | SetDeadline \<Rightarrow>
          (case fault i of
             Some e \<Rightarrow> s\<lparr>pc := Terminated e\<rparr>
           | None \<Rightarrow>
               s\<lparr>end_time := deadline (now i) (lvl s),
                 effects := effects s @ [Clock (now i)], pc := Spin\<rparr>)
      | Spin \<Rightarrow>
          (case fault i of
             Some e \<Rightarrow> s\<lparr>pc := Terminated e\<rparr>
           | None \<Rightarrow>
               (if now i < end_time s
                then s\<lparr>effects := effects s @ [Clock (now i)], pc := Spin\<rparr>
                else s\<lparr>effects := effects s @ [Clock (now i)], pc := CoolSleep\<rparr>))
      | CoolSleep \<Rightarrow>
          (case fault i of
             Some e \<Rightarrow> s\<lparr>pc := Terminated e\<rparr>
           | None \<Rightarrow> s\<lparr>effects := effects s @ [Sleep 0.05], pc := Acquire\<rparr>)
      | Terminated e \<Rightarrow> s)"

text \<open>
  \<^verbatim>\<open>cpu_burner\<close> is \<^verbatim>\<open>while True\<close>: it runs for as long as it is given steps, one input
  per step.
\<close>

fun cpu_burner :: "input list \<Rightarrow> state \<Rightarrow> state" where
  "cpu_burner [] s = s"
| "cpu_burner (i # ins) s = cpu_burner ins (step i s)"

text \<open>An input for a step whose library call returns.\<close>

definition returns :: "real \<Rightarrow> real \<Rightarrow> input" where
  "returns r t = \<lparr>sample = r, now = t, fault = None\<rparr>"

definition raises :: "exn \<Rightarrow> input" where
  "raises e = \<lparr>sample = 0, now = 0, fault = Some e\<rparr>"

section \<open>The process: the burner thread and the requests\<close>

text \<open>
  The process runs the burner thread and the request handlers. An event is one step of
  the burner, or one request \<^verbatim>\<open>GET /burn\<close> handled to its end (the handler touches the
  shared level only inside its \<^verbatim>\<open>with burn_lock\<close> block, so the burner cannot observe
  the handler half way). A request that finds the lock held makes no progress.
\<close>

datatype event = Burner input | Request "int option" real

fun handle :: "event \<Rightarrow> state \<Rightarrow> state" where
  "handle (Burner i) s = step i s"
| "handle (Request arg ts) s = snd (burn_endpoint arg ts s)"

fun exec :: "event list \<Rightarrow> state \<Rightarrow> state" where
  "exec [] s = s"
| "exec (e # es) s = exec es (handle e s)"

text \<open>The busy loop of lines 147 to 149.\<close>

definition in_spin_window :: "state \<Rightarrow> bool" where
  "in_spin_window s = (pc s = SetDeadline \<or> pc s = Spin)"

text \<open>
  The lock is held exactly while the burner stands between line 136 and the end of its
  \<^verbatim>\<open>with\<close> block.
\<close>

definition lock_inv :: "state \<Rightarrow> bool" where
  "lock_inv s = (burn_lock s = (pc s = ReadLevel \<or> pc s = Release))"

text \<open>The burner thread has ended with an exception.\<close>

definition dead :: "state \<Rightarrow> bool" where
  "dead s = (case pc s of Terminated e \<Rightarrow> True | _ \<Rightarrow> False)"

section \<open>Rounding to doubles\<close>

text \<open>
  Within one binade, from \<open>2 powi e\<close> up to \<open>2 powi (e + 1)\<close>, the doubles are the multiples
  of \<open>2 powi (e - 52)\<close>. This evaluates \<open>double\<close> on given numbers.
\<close>

lemma two_powr_powi: "(2::real) powr real_of_int k = 2 powi k"
  by (rule powr_real_of_int') simp_all

lemma floor_log2_binade:
  assumes "2 powi e \<le> \<bar>x\<bar>" and "\<bar>x\<bar> < 2 powi (e + 1)"
  shows "\<lfloor>Transcendental.log 2 \<bar>x\<bar>\<rfloor> = e"
proof -
  have "(0::real) < 2 powi e" by simp
  with assms(1) have pos: "0 < \<bar>x\<bar>" by linarith
  have "2 powr real_of_int e \<le> \<bar>x\<bar> \<and> \<bar>x\<bar> < 2 powr real_of_int (e + 1)"
    using assms by (simp only: two_powr_powi)
  with pos show ?thesis
    using floor_log_eq_powr_iff [of "\<bar>x\<bar>" 2 e] by simp
qed

lemma double_binade:
  assumes "2 powi e \<le> \<bar>x\<bar>" and "\<bar>x\<bar> < 2 powi (e + 1)"
  shows "double x = of_int (round_half_even (x / 2 powi (e - 52))) * 2 powi (e - 52)"
proof -
  have "(0::real) < 2 powi e" by simp
  with assms(1) have "0 < \<bar>x\<bar>" by linarith
  then have "x \<noteq> 0" by simp
  then show ?thesis
    using floor_log2_binade [OF assms] by (simp add: double_def ulp_def)
qed

text \<open>A tie goes to the even neighbour, and rounding can reach the next binade.\<close>

lemma double_tie_to_even:
  "double (1 + 1 / 2 ^ 53) = 1" and "double (1 + 3 / 2 ^ 53) = 1 + 2 / 2 ^ 52"
  using double_binade [of 0 "1 + 1 / 2 ^ 53"] double_binade [of 0 "1 + 3 / 2 ^ 53"]
  by (simp_all add: round_half_even_def power_int_minus)

lemma double_next_binade: "double (2 - 1 / 2 ^ 60) = 2"
  using double_binade [of 0 "2 - 1 / 2 ^ 60"]
  by (simp add: round_half_even_def power_int_minus)

text \<open>
  The literal \<^verbatim>\<open>0.02\<close> is the double \<open>5764607523034235 / 2 ^ 58\<close>, and the deadlines the
  code computes for some clock readings and levels.
\<close>

lemma double_0_02: "double (1 / 50) = 5764607523034235 / 288230376151711744"
  using double_binade [of "-6" "1 / 50"]
  by (simp add: round_half_even_def power_int_minus)

lemma float_mul_0_02_by_1: "float_mul (double (1 / 50)) 1 = 5764607523034235 / 288230376151711744"
  using double_binade [of "-6" "5764607523034235 / 288230376151711744"]
  by (simp add: float_mul_def double_0_02 round_half_even_def power_int_minus)

lemma float_mul_0_02_by_5: "float_mul (double (1 / 50)) 5 = 3602879701896397 / 36028797018963968"
  using double_binade [of "-4" "28823037615171175 / 288230376151711744"]
  by (simp add: float_mul_def double_0_02 round_half_even_def power_int_minus)

lemma deadline_level_1_at_100: "deadline 100 1 = 7038281792649953 / 70368744177664"
  using double_binade [of 6 "28828802222694208635 / 288230376151711744"]
  by (simp add: deadline_def float_add_def float_mul_0_02_by_1 round_half_even_def power_int_minus)

lemma deadline_level_1_at_q37:
  "deadline (7523517369093265 / 4194304) 1 = 7523517369177151 / 4194304"
  using double_binade [of 30 "517012176824061157104817275 / 288230376151711744"]
  by (simp add: deadline_def float_add_def float_mul_0_02_by_1 round_half_even_def power_int_minus)

lemma deadline_level_5_at_100: "deadline 100 5 = 3521955646092083 / 35184372088832"
  using double_binade [of 6 "3606482581598293197 / 36028797018963968"]
  by (simp add: deadline_def float_add_def float_mul_0_02_by_5 round_half_even_def power_int_minus)

text \<open>
  Rounding moves a number by at most half an \<open>ulp\<close>, so by at most its size divided by
  \<open>2 ^ 53\<close>; the deadline of line 147 is therefore close to the exact sum, on either side
  of it.
\<close>

lemma round_half_even_error: "\<bar>of_int (round_half_even y) - y\<bar> \<le> 1 / 2"
proof -
  have "of_int \<lfloor>y\<rfloor> \<le> y" "y < of_int \<lfloor>y\<rfloor> + 1"
    by linarith+
  then show ?thesis
    by (auto simp: round_half_even_def Let_def)
qed

lemma ulp_pos: "0 < ulp x"
  by (simp add: ulp_def)

lemma ulp_le: assumes "x \<noteq> 0" shows "ulp x \<le> \<bar>x\<bar> / 2 ^ 52"
proof -
  have pos: "0 < \<bar>x\<bar>" using assms by simp
  have "2 powr real_of_int \<lfloor>Transcendental.log 2 \<bar>x\<bar>\<rfloor> \<le> \<bar>x\<bar>"
    using floor_log_eq_powr_iff [of "\<bar>x\<bar>" 2 "\<lfloor>Transcendental.log 2 \<bar>x\<bar>\<rfloor>"] pos by simp
  then have "2 powi \<lfloor>Transcendental.log 2 \<bar>x\<bar>\<rfloor> \<le> \<bar>x\<bar>"
    by (simp only: two_powr_powi)
  moreover have "ulp x = 2 powi \<lfloor>Transcendental.log 2 \<bar>x\<bar>\<rfloor> / 2 ^ 52"
    by (simp add: ulp_def power_int_diff)
  ultimately show ?thesis
    by (simp add: divide_right_mono)
qed

lemma double_error: "\<bar>double x - x\<bar> \<le> \<bar>x\<bar> / 2 ^ 53"
proof (cases "x = 0")
  case True
  then show ?thesis by (simp add: double_def)
next
  case False
  let ?u = "ulp x"
  have u: "0 < ?u" by (rule ulp_pos)
  have "double x - x = (of_int (round_half_even (x / ?u)) - x / ?u) * ?u"
    using False u by (simp add: double_def algebra_simps)
  then have "\<bar>double x - x\<bar> = \<bar>of_int (round_half_even (x / ?u)) - x / ?u\<bar> * ?u"
    using u by (simp add: abs_mult)
  also have "\<dots> \<le> 1 / 2 * ?u"
    using round_half_even_error [of "x / ?u"] u by (intro mult_right_mono) simp_all
  also have "\<dots> \<le> 1 / 2 * (\<bar>x\<bar> / 2 ^ 52)"
    using ulp_le [OF False] by simp
  finally show ?thesis by simp
qed

lemma deadline_near_sum:
  assumes "0 \<le> t" and "1 \<le> l"
  shows "\<bar>deadline t l - (t + 0.02 * real_of_int l)\<bar> \<le> (t + real_of_int l) / 2 ^ 53"
proof -
  define L where "L = real_of_int l"
  define X where "X = 5764607523034235 / 288230376151711744 * L"
  define m where "m = double X"
  define D where "D = double (t + m)"
  have L: "1 \<le> L" using assms(2) by (simp add: L_def)
  have X: "0 \<le> X" "X \<le> L / 32" "X - L / 50 \<le> L / 1152921504606846976"
    "L / 50 - X \<le> L / 1152921504606846976"
    using L by (simp_all add: X_def)
  have "\<bar>m - X\<bar> \<le> \<bar>X\<bar> / 2 ^ 53"
    unfolding m_def by (rule double_error)
  with X(1) have "\<bar>m - X\<bar> \<le> X / 9007199254740992" by simp
  then have "m - X \<le> X / 9007199254740992 \<and> - (m - X) \<le> X / 9007199254740992"
    by (simp only: abs_le_iff)
  then have m1: "m - X \<le> X / 9007199254740992" "X - m \<le> X / 9007199254740992"
    by simp_all
  have m2: "0 \<le> m" "m \<le> L / 16"
    using m1 X L by linarith+
  have "\<bar>D - (t + m)\<bar> \<le> \<bar>t + m\<bar> / 2 ^ 53"
    unfolding D_def by (rule double_error)
  with m2(1) assms(1) have "\<bar>D - (t + m)\<bar> \<le> (t + m) / 9007199254740992" by simp
  then have "D - (t + m) \<le> (t + m) / 9007199254740992 \<and>
      - (D - (t + m)) \<le> (t + m) / 9007199254740992"
    by (simp only: abs_le_iff)
  then have e: "D - (t + m) \<le> (t + m) / 9007199254740992"
    "(t + m) - D \<le> (t + m) / 9007199254740992"
    by simp_all
  have d: "deadline t l = D"
    by (simp add: deadline_def float_add_def float_mul_def double_0_02 D_def m_def X_def L_def)
  have up: "D - (t + L / 50) \<le> (t + L) / 9007199254740992"
    using e(1) m1(1) m2(2) X(2,3) L assms(1) by argo
  have lo: "(t + L / 50) - D \<le> (t + L) / 9007199254740992"
    using e(2) m1(2) m2(2) X(2,4) L assms(1) by argo
  have "\<bar>D - (t + L / 50)\<bar> \<le> (t + L) / 9007199254740992"
  proof (rule abs_leI)
    show "D - (t + L / 50) \<le> (t + L) / 9007199254740992" by (rule up)
    show "- (D - (t + L / 50)) \<le> (t + L) / 9007199254740992" using lo by argo
  qed
  then show ?thesis
    by (simp add: d L_def)
qed

section \<open>The handler on requests\<close>

text \<open>
  The call of \<^verbatim>\<open>log\<close> in the \<^verbatim>\<open>/warn\<close> handler (line 70) passes no keyword that names a
  parameter: the logger receives one record through \<^verbatim>\<open>logger.warning\<close>. The call in the
  \<^verbatim>\<open>/burn\<close> handler (line 159) passes \<^verbatim>\<open>level=level\<close> after the positional level and
  raises before the body runs, whatever the level is.
\<close>

lemma lower_WARNING: "lower ''WARNING'' = ''warning''"
  by code_simp

lemma log_warn_call_returns:
  "log [PyStr ''warning'', PyStr ''Simulated warning'']
       [(''endpoint'', PyStr ''/warn''), (''code'', PyStr ''DEMO_WARN'')] ts s
   = (Returned (),
      s\<lparr>logger := logger s @
          [(''warning'',
            [(''app'', PyStr (APP_NAME s)), (''level'', PyStr ''warning''),
             (''msg'', PyStr ''Simulated warning''), (''ts'', PyFloat ts),
             (''endpoint'', PyStr ''/warn''), (''code'', PyStr ''DEMO_WARN'')])]\<rparr>)"
  by (simp add: log_def bind_args_def log_body_def dict_literal_def lower_def lower_char_def
      getattr_logger_def logger_methods_def)

lemma log_burn_call_raises:
  "log [PyStr ''warning'', PyStr ''CPU burn updated'']
       [(''endpoint'', PyStr ''/burn''), (''level'', PyInt n)] ts s
   = (Raised (TypeError ''got multiple values for argument level''), s)"
  by (simp add: log_def bind_args_def)

lemma burn_raises:
  "\<not> burn_lock s \<Longrightarrow>
   burn n ts s = (Raised (TypeError ''got multiple values for argument level''), s\<lparr>burn_level := n\<rparr>)"
  by (simp add: burn_def log_burn_call_raises)

lemma burn_blocked: "burn_lock s \<Longrightarrow> burn n ts s = (Blocked, s)"
  by (simp add: burn_def)

lemma burn_endpoint_in_range_raises:
  "0 \<le> n \<Longrightarrow> n \<le> 10 \<Longrightarrow> \<not> burn_lock s \<Longrightarrow>
   burn_endpoint (Some n) ts s
     = (Raised (TypeError ''got multiple values for argument level''), s\<lparr>burn_level := n\<rparr>)"
  by (simp add: burn_endpoint_def level_query_def burn_raises)

lemma burn_endpoint_default_raises:
  "\<not> burn_lock s \<Longrightarrow>
   burn_endpoint None ts s
     = (Raised (TypeError ''got multiple values for argument level''), s\<lparr>burn_level := 0\<rparr>)"
  by (simp add: burn_endpoint_def level_query_def burn_raises)

lemma burn_state_cases:
  "snd (burn n ts s) = s \<or> snd (burn n ts s) = s\<lparr>burn_level := n\<rparr>"
  by (cases "burn_lock s") (simp_all add: burn_raises burn_blocked)

lemma burn_endpoint_state_cases:
  "snd (burn_endpoint arg ts s) = s \<or>
   (\<exists>n. 0 \<le> n \<and> n \<le> 10 \<and> snd (burn_endpoint arg ts s) = s\<lparr>burn_level := n\<rparr>)"
proof (cases arg)
  case None
  then show ?thesis
    using burn_state_cases [of 0 ts s] by (auto simp: burn_endpoint_def level_query_def)
next
  case (Some n)
  then show ?thesis
    using burn_state_cases [of n ts s] by (auto simp: burn_endpoint_def level_query_def)
qed

text \<open>
  Claim C1, at the request \<^verbatim>\<open>GET /burn?level=5\<close> on the freshly started process. The
  claim says the request succeeds and the level then reads 5. The handler stores 5, and
  its call of \<^verbatim>\<open>log\<close> then raises: the keyword \<^verbatim>\<open>level=level\<close> names the first parameter
  of \<^verbatim>\<open>log\<close>, which the positional \<^verbatim>\<open>"warning"\<close> has filled. The request does not
  succeed; the level is 5 afterwards.
\<close>

theorem burn_endpoint_valid_level_raises:
  "burn_endpoint (Some 5) ts (init_state app)
     = (Raised (TypeError ''got multiple values for argument level''),
        (init_state app)\<lparr>burn_level := 5\<rparr>)"
  by (simp add: burn_endpoint_in_range_raises init_state_def)

text \<open>
  Claim C2. For every integer \<open>n\<close> outside 0..10 the request \<^verbatim>\<open>GET /burn?level=n\<close> fails
  with the validation error of the declared bounds, the handler body does not run, and
  the state, so the stored burn level, is what it was.
\<close>

theorem burn_endpoint_rejects_out_of_range:
  "n < 0 \<or> 10 < n \<Longrightarrow>
   burn_endpoint (Some n) ts s = (Raised RequestValidationError, s) \<and>
   burn_level (snd (burn_endpoint (Some n) ts s)) = burn_level s"
  by (auto simp: burn_endpoint_def level_query_def)

theorem burn_endpoint_rejects_out_of_range_witness:
  "((11::int) < 0 \<or> (10::int) < 11) \<and>
   burn_endpoint (Some 11) 0 ((init_state ''demo-generator'')\<lparr>burn_level := 7\<rparr>)
     = (Raised RequestValidationError, (init_state ''demo-generator'')\<lparr>burn_level := 7\<rparr>) \<and>
   burn_level (snd (burn_endpoint (Some 11) 0 ((init_state ''demo-generator'')\<lparr>burn_level := 7\<rparr>))) = 7 \<and>
   burn_level (snd (burn_endpoint (Some (- 1)) 0 ((init_state ''demo-generator'')\<lparr>burn_level := 7\<rparr>))) = 7 \<and>
   burn_level (snd (burn_endpoint (Some 1000) 0 ((init_state ''demo-generator'')\<lparr>burn_level := 7\<rparr>))) = 7"
  using burn_endpoint_rejects_out_of_range [of 11 0 "(init_state ''demo-generator'')\<lparr>burn_level := 7\<rparr>"]
    burn_endpoint_rejects_out_of_range [of "- 1" 0 "(init_state ''demo-generator'')\<lparr>burn_level := 7\<rparr>"]
    burn_endpoint_rejects_out_of_range [of 1000 0 "(init_state ''demo-generator'')\<lparr>burn_level := 7\<rparr>"]
  by (simp add: init_state_def)

text \<open>
  Claim C4, at the request \<^verbatim>\<open>GET /burn?level=5\<close> on the freshly started process. The
  claim says one record reaches the logger, at warning severity, and the call returns 5.
  The call of \<^verbatim>\<open>log\<close> raises while its arguments are bound, before the body builds a
  record: the logger has received nothing and the handler returns nothing.
\<close>

theorem burn_endpoint_emits_no_log_record:
  "fst (burn_endpoint (Some 5) ts (init_state app))
     = Raised (TypeError ''got multiple values for argument level'') \<and>
   logger (snd (burn_endpoint (Some 5) ts (init_state app))) = []"
  by (simp add: burn_endpoint_in_range_raises init_state_def)

text \<open>
  Claim C9, at the direct call \<^verbatim>\<open>burn(11)\<close> on the freshly started process. The body
  checks no range and stores 11, as the claim says; it then raises in its call of
  \<^verbatim>\<open>log\<close>, where the claim says it returns the stored level without an error.
\<close>

theorem burn_body_stores_then_raises:
  "burn 11 ts (init_state app)
     = (Raised (TypeError ''got multiple values for argument level''),
        (init_state app)\<lparr>burn_level := 11\<rparr>)"
  by (simp add: burn_raises init_state_def)

text \<open>
  Claim C10, at the request \<^verbatim>\<open>GET /burn\<close> without a level while the stored level is 7.
  The default 0 is passed and stored, as the claim says; the handler then raises in its
  call of \<^verbatim>\<open>log\<close>, where the claim says it returns the level 0.
\<close>

theorem burn_endpoint_default_level_raises:
  "burn_endpoint None ts ((init_state app)\<lparr>burn_level := 7\<rparr>)
     = (Raised (TypeError ''got multiple values for argument level''),
        (init_state app)\<lparr>burn_level := 0\<rparr>)"
  by (simp add: burn_endpoint_default_raises init_state_def)

section \<open>The stored level stays within 0..10\<close>

lemma step_burn_level: "burn_level (step i s) = burn_level s"
  by (simp add: step_def split: pc.splits option.splits)

lemma step_logger: "logger (step i s) = logger s"
  by (simp add: step_def split: pc.splits option.splits)

lemma handle_level_bound:
  "0 \<le> burn_level s \<and> burn_level s \<le> 10 \<Longrightarrow>
   0 \<le> burn_level (handle e s) \<and> burn_level (handle e s) \<le> 10"
proof (cases e)
  case (Burner i)
  assume "0 \<le> burn_level s \<and> burn_level s \<le> 10"
  with Burner show ?thesis by (simp add: step_burn_level)
next
  case (Request arg ts)
  assume b: "0 \<le> burn_level s \<and> burn_level s \<le> 10"
  from burn_endpoint_state_cases [of arg ts s] b Request show ?thesis by auto
qed

lemma exec_level_bound:
  "0 \<le> burn_level s \<and> burn_level s \<le> 10 \<Longrightarrow>
   0 \<le> burn_level (exec es s) \<and> burn_level (exec es s) \<le> 10"
proof (induction es arbitrary: s)
  case Nil
  then show ?case by simp
next
  case (Cons e es)
  from Cons.prems have "0 \<le> burn_level (handle e s) \<and> burn_level (handle e s) \<le> 10"
    by (rule handle_level_bound)
  then show ?case using Cons.IH by simp
qed

text \<open>
  Claim C3. The stored burn level is 0 when the process starts; every event (a request
  to \<^verbatim>\<open>/burn\<close> with any argument, a step of the loop) takes a state whose level is
  within 0..10 to a state whose level is within 0..10; so the level is within 0..10 after
  every sequence of events. Reading the level is the field \<open>burn_level\<close>, which changes
  nothing.
\<close>

theorem burn_level_in_range:
  "burn_level (init_state app) = 0 \<and>
   (0 \<le> burn_level s \<and> burn_level s \<le> 10 \<longrightarrow>
      0 \<le> burn_level (handle e s) \<and> burn_level (handle e s) \<le> 10) \<and>
   0 \<le> burn_level (exec es (init_state app)) \<and> burn_level (exec es (init_state app)) \<le> 10"
proof -
  have i: "burn_level (init_state app) = 0"
    by (simp add: init_state_def)
  then have "0 \<le> burn_level (init_state app) \<and> burn_level (init_state app) \<le> 10"
    by simp
  then have "0 \<le> burn_level (exec es (init_state app)) \<and> burn_level (exec es (init_state app)) \<le> 10"
    by (rule exec_level_bound)
  with i handle_level_bound [of s e] show ?thesis by blast
qed

theorem burn_level_in_range_witness:
  "burn_level (init_state ''demo-generator'') = 0 \<and>
   burn_level ((init_state ''demo-generator'')\<lparr>burn_level := 10\<rparr>) = 10 \<and>
   burn_level (handle (Request (Some 3) 0) ((init_state ''demo-generator'')\<lparr>burn_level := 10\<rparr>)) = 3 \<and>
   burn_level (exec [Request (Some 7) 0, Burner (returns 0 0), Request (Some 11) 1, Request (Some (-1)) 2]
                 (init_state ''demo-generator'')) = 7"
  using burn_level_in_range [of "''demo-generator''" "(init_state ''demo-generator'')\<lparr>burn_level := 10\<rparr>"
      "Request (Some 3) 0"
      "[Request (Some 7) 0, Burner (returns 0 0), Request (Some 11) 1, Request (Some (-1)) 2]"]
  by (simp add: init_state_def burn_endpoint_def level_query_def burn_raises step_def returns_def)

section \<open>The lock and the busy loop\<close>

lemma step_lock_inv: "lock_inv s \<Longrightarrow> lock_inv (step i s)"
  by (auto simp: lock_inv_def step_def split: pc.splits option.splits)

lemma request_lock_inv: "lock_inv s \<Longrightarrow> lock_inv (snd (burn_endpoint arg ts s))"
  using burn_endpoint_state_cases [of arg ts s] by (auto simp: lock_inv_def)

lemma handle_lock_inv: "lock_inv s \<Longrightarrow> lock_inv (handle e s)"
  by (cases e) (simp_all add: step_lock_inv request_lock_inv)

lemma exec_lock_inv: "lock_inv s \<Longrightarrow> lock_inv (exec es s)"
  by (induction es arbitrary: s) (simp_all add: handle_lock_inv)

lemma init_lock_inv: "lock_inv (init_state app)"
  by (simp add: lock_inv_def init_state_def)

text \<open>
  Claim C8. In every state the process reaches, if the burner is in its busy loop (lines
  147 to 149) then \<open>burn_lock\<close> is free; the burner holds the lock exactly while it stands
  at the read of line 137 or at the end of the \<^verbatim>\<open>with\<close> block.
\<close>

theorem spin_window_lock_free:
  "(in_spin_window (exec es (init_state app)) \<longrightarrow> \<not> burn_lock (exec es (init_state app))) \<and>
   burn_lock (exec es (init_state app))
     = (pc (exec es (init_state app)) = ReadLevel \<or> pc (exec es (init_state app)) = Release)"
proof -
  have "lock_inv (exec es (init_state app))"
    using init_lock_inv by (rule exec_lock_inv)
  then show ?thesis
    by (auto simp: lock_inv_def in_spin_window_def)
qed

theorem spin_window_lock_free_witness:
  "in_spin_window
     (exec [Request (Some 1) 0, Burner (returns 0 0), Burner (returns 0 0), Burner (returns 0 0),
            Burner (returns 0 0), Burner (returns 0.5 0), Burner (returns 0 0),
            Burner (returns 0 100), Burner (returns 0 100.01)]
        (init_state ''demo-generator'')) \<and>
   \<not> burn_lock
     (exec [Request (Some 1) 0, Burner (returns 0 0), Burner (returns 0 0), Burner (returns 0 0),
            Burner (returns 0 0), Burner (returns 0.5 0), Burner (returns 0 0),
            Burner (returns 0 100), Burner (returns 0 100.01)]
        (init_state ''demo-generator'')) \<and>
   pc (exec [Burner (returns 0 0), Request (Some 4) 0] (init_state ''demo-generator'')) = ReadLevel \<and>
   burn_lock (exec [Burner (returns 0 0), Request (Some 4) 0] (init_state ''demo-generator''))"
  using spin_window_lock_free [of
      "[Request (Some 1) 0, Burner (returns 0 0), Burner (returns 0 0), Burner (returns 0 0),
        Burner (returns 0 0), Burner (returns 0.5 0), Burner (returns 0 0),
        Burner (returns 0 100), Burner (returns 0 100.01)]" "''demo-generator''"]
    spin_window_lock_free [of "[Burner (returns 0 0), Request (Some 4) 0]" "''demo-generator''"]
  by (simp add: init_state_def burn_endpoint_def level_query_def burn_raises burn_blocked
      step_def returns_def in_spin_window_def deadline_level_1_at_100)

section \<open>One iteration of the loop\<close>

lemma step_Acquire:
  "pc s = Acquire \<Longrightarrow> \<not> burn_lock s \<Longrightarrow> step i s = s\<lparr>burn_lock := True, pc := ReadLevel\<rparr>"
  by (simp add: step_def)

lemma step_ReadLevel: "pc s = ReadLevel \<Longrightarrow> step i s = s\<lparr>lvl := burn_level s, pc := Release\<rparr>"
  by (simp add: step_def)

lemma step_Release: "pc s = Release \<Longrightarrow> step i s = s\<lparr>burn_lock := False, pc := SetCpuGauge\<rparr>"
  by (simp add: step_def)

lemma step_SetCpuGauge:
  "pc s = SetCpuGauge \<Longrightarrow> fault i = None \<Longrightarrow>
   step i s = s\<lparr>CPU_BURN := real_of_int (lvl s), pc := SetRandomGauge\<rparr>"
  by (simp add: step_def)

lemma step_SetRandomGauge:
  "pc s = SetRandomGauge \<Longrightarrow> fault i = None \<Longrightarrow>
   step i s = s\<lparr>RANDOM_GAUGE := sample i, pc := TestLevel\<rparr>"
  by (simp add: step_def)

lemma step_TestLevel_busy:
  "pc s = TestLevel \<Longrightarrow> 0 < lvl s \<Longrightarrow> step i s = s\<lparr>pc := SetDeadline\<rparr>"
  by (simp add: step_def)

lemma step_SetDeadline:
  "pc s = SetDeadline \<Longrightarrow> fault d = None \<Longrightarrow>
   step d s = s\<lparr>end_time := deadline (now d) (lvl s),
                effects := effects s @ [Clock (now d)], pc := Spin\<rparr>"
  by (simp add: step_def)

lemma step_Spin_poll:
  "pc s = Spin \<Longrightarrow> fault p = None \<Longrightarrow> now p < end_time s \<Longrightarrow>
   step p s = s\<lparr>effects := effects s @ [Clock (now p)], pc := Spin\<rparr>"
  by (simp add: step_def)

lemma step_Spin_exit:
  "pc s = Spin \<Longrightarrow> fault q = None \<Longrightarrow> end_time s \<le> now q \<Longrightarrow>
   step q s = s\<lparr>effects := effects s @ [Clock (now q)], pc := CoolSleep\<rparr>"
  by (simp add: step_def)

lemma step_CoolSleep:
  "pc s = CoolSleep \<Longrightarrow> fault c = None \<Longrightarrow>
   step c s = s\<lparr>effects := effects s @ [Sleep 0.05], pc := Acquire\<rparr>"
  by (simp add: step_def)

lemma cpu_burner_append: "cpu_burner (xs @ ys) s = cpu_burner ys (cpu_burner xs s)"
  by (induction xs arbitrary: s) simp_all

lemma first_half:
  assumes "pc s = Acquire" and "\<not> burn_lock s" and "fault i4 = None" and "fault i5 = None"
  shows "cpu_burner [i1, i2, i3, i4, i5] s =
          s\<lparr>CPU_BURN := real_of_int (burn_level s), RANDOM_GAUGE := sample i5,
            lvl := burn_level s, pc := TestLevel\<rparr>"
  using assms
  by (simp add: step_Acquire step_ReadLevel step_Release step_SetCpuGauge step_SetRandomGauge)

text \<open>
  Claim C5. An iteration starts at line 136 in a state the process has reached, whatever
  the stored level is. When the two gauge calls return, its first five steps read the
  level, set \<^verbatim>\<open>demo_cpu_burn_level\<close> to the level read and set \<^verbatim>\<open>demo_random_gauge\<close> to
  the sample \<^verbatim>\<open>random.random()\<close> returned in this iteration, which lies in the interval
  from 0 (included) to 1 (excluded) when the sample does; the test of the level comes
  only after both.
\<close>

theorem iteration_sets_gauges:
  assumes "s = exec es (init_state app)" and "pc s = Acquire"
    and "fault i4 = None" and "fault i5 = None"
    and "0 \<le> sample i5" and "sample i5 < 1"
  shows "lvl (cpu_burner [i1, i2, i3, i4, i5] s) = burn_level s \<and>
         CPU_BURN (cpu_burner [i1, i2, i3, i4, i5] s)
           = real_of_int (lvl (cpu_burner [i1, i2, i3, i4, i5] s)) \<and>
         RANDOM_GAUGE (cpu_burner [i1, i2, i3, i4, i5] s) = sample i5 \<and>
         0 \<le> RANDOM_GAUGE (cpu_burner [i1, i2, i3, i4, i5] s) \<and>
         RANDOM_GAUGE (cpu_burner [i1, i2, i3, i4, i5] s) < 1 \<and>
         pc (cpu_burner [i1, i2, i3, i4, i5] s) = TestLevel"
proof -
  have "lock_inv s"
    unfolding assms(1) using init_lock_inv by (rule exec_lock_inv)
  with assms(2) have free: "\<not> burn_lock s"
    by (simp add: lock_inv_def)
  have "cpu_burner [i1, i2, i3, i4, i5] s =
          s\<lparr>CPU_BURN := real_of_int (burn_level s), RANDOM_GAUGE := sample i5,
            lvl := burn_level s, pc := TestLevel\<rparr>"
    using assms(2) free assms(3,4) by (rule first_half)
  with assms(5,6) show ?thesis by simp
qed

theorem iteration_sets_gauges_witness:
  "pc (exec [Request (Some 3) 0] (init_state ''demo-generator'')) = Acquire \<and>
   fault (returns 0.25 0) = None \<and> (0::real) \<le> sample (returns 0.25 0) \<and>
   sample (returns 0.25 0) < 1 \<and>
   CPU_BURN (cpu_burner [returns 0 0, returns 0 0, returns 0 0, returns 0 0, returns 0.25 0]
               (exec [Request (Some 3) 0] (init_state ''demo-generator''))) = 3 \<and>
   RANDOM_GAUGE (cpu_burner [returns 0 0, returns 0 0, returns 0 0, returns 0 0, returns 0.25 0]
               (exec [Request (Some 3) 0] (init_state ''demo-generator''))) = 0.25 \<and>
   CPU_BURN (cpu_burner [returns 0 0, returns 0 0, returns 0 0, returns 0 0, returns 0.25 0]
               (init_state ''demo-generator'')) = 0 \<and>
   RANDOM_GAUGE (cpu_burner [returns 0 0, returns 0 0, returns 0 0, returns 0 0, returns 0.25 0]
               (init_state ''demo-generator'')) = 0.25"
  using iteration_sets_gauges [of "exec [Request (Some 3) 0] (init_state ''demo-generator'')"
      "[Request (Some 3) 0]" "''demo-generator''" "returns 0 0" "returns 0.25 0"
      "returns 0 0" "returns 0 0" "returns 0 0"]
    iteration_sets_gauges [of "init_state ''demo-generator''"
      "[]" "''demo-generator''" "returns 0 0" "returns 0.25 0"
      "returns 0 0" "returns 0 0" "returns 0 0"]
  by (simp add: init_state_def burn_endpoint_def level_query_def burn_raises returns_def)

lemma spin_polls:
  "pc s = Spin \<Longrightarrow> \<forall>p \<in> set ps. fault p = None \<and> now p < end_time s \<Longrightarrow>
   cpu_burner ps s = s\<lparr>effects := effects s @ map (\<lambda>p. Clock (now p)) ps, pc := Spin\<rparr>"
proof (induction ps arbitrary: s)
  case Nil
  then show ?case by simp
next
  case (Cons p ps)
  let ?s = "s\<lparr>effects := effects s @ [Clock (now p)], pc := Spin\<rparr>"
  from Cons.prems have st: "step p s = ?s"
    by (simp add: step_Spin_poll)
  have "cpu_burner ps ?s
      = ?s\<lparr>effects := effects ?s @ map (\<lambda>p. Clock (now p)) ps, pc := Spin\<rparr>"
    using Cons.prems by (intro Cons.IH) simp_all
  then show ?case by (simp add: st)
qed

lemma idle_iteration:
  assumes "pc s = TestLevel" and "lvl s \<le> 0" and "fault j = None"
  shows "cpu_burner [i, j] s = s\<lparr>effects := effects s @ [Sleep 0.2], pc := Acquire\<rparr>"
  using assms by (simp add: step_def)

lemma enter_spin:
  assumes "pc s = TestLevel" and "0 < lvl s" and "fault d = None"
  shows "cpu_burner [i, d] s =
           s\<lparr>end_time := deadline (now d) (lvl s),
             effects := effects s @ [Clock (now d)], pc := Spin\<rparr>"
  using assms by (simp add: step_TestLevel_busy step_SetDeadline)

lemma spin_stays:
  assumes "pc s = TestLevel" and "0 < lvl s" and "fault d = None"
    and "\<forall>p \<in> set ps. fault p = None \<and> now p < deadline (now d) (lvl s)"
  shows "cpu_burner (i # d # ps) s =
           s\<lparr>end_time := deadline (now d) (lvl s),
             effects := effects s @ Clock (now d) # map (\<lambda>p. Clock (now p)) ps, pc := Spin\<rparr>"
proof -
  let ?s2 = "s\<lparr>end_time := deadline (now d) (lvl s),
               effects := effects s @ [Clock (now d)], pc := Spin\<rparr>"
  have "cpu_burner (i # d # ps) s = cpu_burner ps (cpu_burner [i, d] s)"
    by simp
  also have "\<dots> = cpu_burner ps ?s2"
    using assms(1-3) by (simp only: enter_spin)
  also have "\<dots> = ?s2\<lparr>effects := effects ?s2 @ map (\<lambda>p. Clock (now p)) ps, pc := Spin\<rparr>"
    using assms(4) by (intro spin_polls) simp_all
  finally show ?thesis by simp
qed

lemma busy_iteration:
  assumes "pc s = TestLevel" and "0 < lvl s"
    and "fault d = None" and "fault q = None" and "fault c = None"
    and "\<forall>p \<in> set ps. fault p = None \<and> now p < deadline (now d) (lvl s)"
    and "deadline (now d) (lvl s) \<le> now q"
  shows "cpu_burner (i # d # ps @ [q, c]) s =
           s\<lparr>end_time := deadline (now d) (lvl s),
             effects := effects s @ Clock (now d) # map (\<lambda>p. Clock (now p)) ps
                          @ [Clock (now q), Sleep 0.05],
             pc := Acquire\<rparr>"
proof -
  let ?s3 = "s\<lparr>end_time := deadline (now d) (lvl s),
             effects := effects s @ Clock (now d) # map (\<lambda>p. Clock (now p)) ps, pc := Spin\<rparr>"
  have "cpu_burner (i # d # ps @ [q, c]) s = cpu_burner [q, c] (cpu_burner (i # d # ps) s)"
    using cpu_burner_append [of "i # d # ps" "[q, c]" s] by simp
  also have "\<dots> = cpu_burner [q, c] ?s3"
    using assms(1,2,3,6) by (simp only: spin_stays)
  also have "\<dots> = step c (step q ?s3)" by simp
  also have "step q ?s3 = ?s3\<lparr>effects := effects ?s3 @ [Clock (now q)], pc := CoolSleep\<rparr>"
    using assms(4,7) by (intro step_Spin_exit) simp_all
  also have "step c \<dots> = ?s3\<lparr>effects := effects ?s3 @ [Clock (now q), Sleep 0.05], pc := Acquire\<rparr>"
    using assms(5) by (simp add: step_CoolSleep)
  finally show ?thesis by simp
qed

text \<open>
  Claim C6, as the code has it. From the test of line 141:
  \<^item> when the level read is 0 (or less), the iteration sleeps 0.2 seconds and starts the
    next iteration; it reads no clock and never enters the busy loop;
  \<^item> otherwise (a level from 1 to 10, a clock reading \<open>now d\<close> that is not negative and
    in the range of doubles) it fixes the deadline, the float sum of that reading and
    0.02 seconds times the level, and
    then only reads the clock, with no sleep in between, for as long as the readings are
    below the deadline; at the first reading \<open>now q\<close> that is not below the deadline it
    leaves the busy loop, sleeps 0.05 seconds and starts the next iteration. The deadline
    differs from the reading plus 0.02 seconds times the level by at most the rounding
    of the two float operations, so the loop runs for at least 0.02 seconds times the
    level less that rounding; how long after the deadline the last reading comes is not
    bounded.
\<close>

theorem iteration_idles_or_spins_to_deadline:
  assumes "pc s = TestLevel"
  shows "(lvl s \<le> 0 \<and> fault j = None \<longrightarrow>
            cpu_burner [i, j] s = s\<lparr>effects := effects s @ [Sleep 0.2], pc := Acquire\<rparr>) \<and>
         (0 < lvl s \<and> lvl s \<le> 10 \<and> 0 \<le> now d \<and> now d < 2 ^ 1023 \<and>
          fault d = None \<and> fault q = None \<and> fault c = None \<and>
          (\<forall>p \<in> set ps. fault p = None \<and> now p < deadline (now d) (lvl s)) \<and>
          deadline (now d) (lvl s) \<le> now q \<longrightarrow>
            pc (cpu_burner (i # d # ps) s) = Spin \<and>
            cpu_burner (i # d # ps @ [q, c]) s =
              s\<lparr>end_time := deadline (now d) (lvl s),
                effects := effects s @ Clock (now d) # map (\<lambda>p. Clock (now p)) ps
                             @ [Clock (now q), Sleep 0.05],
                pc := Acquire\<rparr> \<and>
            \<bar>deadline (now d) (lvl s) - (now d + 0.02 * real_of_int (lvl s))\<bar>
              \<le> (now d + real_of_int (lvl s)) / 2 ^ 53 \<and>
            0.02 * real_of_int (lvl s) - (now d + real_of_int (lvl s)) / 2 ^ 53
              \<le> now q - now d)"
proof (intro conjI impI)
  assume "lvl s \<le> 0 \<and> fault j = None"
  with assms show "cpu_burner [i, j] s = s\<lparr>effects := effects s @ [Sleep 0.2], pc := Acquire\<rparr>"
    by (intro idle_iteration) simp_all
next
  assume h: "0 < lvl s \<and> lvl s \<le> 10 \<and> 0 \<le> now d \<and> now d < 2 ^ 1023 \<and>
          fault d = None \<and> fault q = None \<and> fault c = None \<and>
          (\<forall>p \<in> set ps. fault p = None \<and> now p < deadline (now d) (lvl s)) \<and>
          deadline (now d) (lvl s) \<le> now q"
  from assms h have "cpu_burner (i # d # ps) s =
           s\<lparr>end_time := deadline (now d) (lvl s),
             effects := effects s @ Clock (now d) # map (\<lambda>p. Clock (now p)) ps, pc := Spin\<rparr>"
    by (intro spin_stays) simp_all
  then show "pc (cpu_burner (i # d # ps) s) = Spin"
    by simp
  from assms h show "cpu_burner (i # d # ps @ [q, c]) s =
              s\<lparr>end_time := deadline (now d) (lvl s),
                effects := effects s @ Clock (now d) # map (\<lambda>p. Clock (now p)) ps
                             @ [Clock (now q), Sleep 0.05],
                pc := Acquire\<rparr>"
    by (intro busy_iteration) simp_all
  from h have near: "\<bar>deadline (now d) (lvl s) - (now d + 0.02 * real_of_int (lvl s))\<bar>
              \<le> (now d + real_of_int (lvl s)) / 2 ^ 53"
    by (intro deadline_near_sum) simp_all
  then show "\<bar>deadline (now d) (lvl s) - (now d + 0.02 * real_of_int (lvl s))\<bar>
              \<le> (now d + real_of_int (lvl s)) / 2 ^ 53" .
  from h have "deadline (now d) (lvl s) \<le> now q" by simp
  with near show "0.02 * real_of_int (lvl s) - (now d + real_of_int (lvl s)) / 2 ^ 53
              \<le> now q - now d"
    by linarith
qed

theorem iteration_idles_or_spins_to_deadline_witness:
  "pc (cpu_burner [returns 0 0, returns 0 0, returns 0 0, returns 0 0, returns 0 0]
         (init_state ''demo-generator'')) = TestLevel \<and>
   lvl (cpu_burner [returns 0 0, returns 0 0, returns 0 0, returns 0 0, returns 0 0]
         (init_state ''demo-generator'')) \<le> 0 \<and>
   effects (cpu_burner [returns 0 0, returns 0 0]
     (cpu_burner [returns 0 0, returns 0 0, returns 0 0, returns 0 0, returns 0 0]
         (init_state ''demo-generator''))) = [Sleep 0.2] \<and>
   pc (cpu_burner [returns 0 0, returns 0 0, returns 0 0, returns 0 0, returns 0 0]
         (exec [Request (Some 5) 0] (init_state ''demo-generator''))) = TestLevel \<and>
   lvl (cpu_burner [returns 0 0, returns 0 0, returns 0 0, returns 0 0, returns 0 0]
         (exec [Request (Some 5) 0] (init_state ''demo-generator''))) = 5 \<and>
   deadline 100 5 = 3521955646092083 / 35184372088832 \<and>
   (100.05 :: real) < 3521955646092083 / 35184372088832 \<and>
   (3521955646092083 / 35184372088832 :: real) \<le> 100.1 \<and>
   effects (cpu_burner (returns 0 0 # returns 0 100 # [returns 0 100.05] @ [returns 0 100.1, returns 0 0])
     (cpu_burner [returns 0 0, returns 0 0, returns 0 0, returns 0 0, returns 0 0]
         (exec [Request (Some 5) 0] (init_state ''demo-generator''))))
     = [Clock 100, Clock 100.05, Clock 100.1, Sleep 0.05]"
  using iteration_idles_or_spins_to_deadline [where
      s = "cpu_burner [returns 0 0, returns 0 0, returns 0 0, returns 0 0, returns 0 0]
             (init_state ''demo-generator'')"
      and i = "returns 0 0" and j = "returns 0 0"]
    iteration_idles_or_spins_to_deadline [where
      s = "cpu_burner [returns 0 0, returns 0 0, returns 0 0, returns 0 0, returns 0 0]
             (exec [Request (Some 5) 0] (init_state ''demo-generator''))"
      and i = "returns 0 0" and d = "returns 0 100" and ps = "[returns 0 100.05]"
      and q = "returns 0 100.1" and c = "returns 0 0"]
  by (simp add: init_state_def burn_endpoint_def level_query_def burn_raises step_def returns_def
      deadline_level_5_at_100)

text \<open>
  Claim C6 as stated, with a busy loop of exactly 20 ms times the level, fails at level 1
  on either side.
  \<^item> The clock reads \<open>7523517369093265 / 2 ^ 22\<close> (the double nearest to
    1793746320.985142) when the deadline is fixed. The float sum of line 147 is
    \<open>7523517369177151 / 2 ^ 22\<close>, below the reading plus 0.02; the next reading is that
    double, and the loop ends there, less than 20 ms after it started.
  \<^item> The clock reads 100, then 100.01, then 100.5 (the thread did not run for a while):
    the loop goes on at 100.01 and ends at 100.5, half a second after it started, which
    is more than 20 ms away from 20 ms times the level.
\<close>

theorem spin_time_not_exact_counterexample:
  "effects (exec [Request (Some 1) 0, Burner (returns 0 0), Burner (returns 0 0),
                  Burner (returns 0 0), Burner (returns 0 0), Burner (returns 0.5 0),
                  Burner (returns 0 0), Burner (returns 0 (7523517369093265 / 4194304)),
                  Burner (returns 0 (7523517369177151 / 4194304)), Burner (returns 0 0)]
             (init_state ''demo-generator''))
     = [Clock (7523517369093265 / 4194304), Clock (7523517369177151 / 4194304), Sleep 0.05] \<and>
   lvl (exec [Request (Some 1) 0, Burner (returns 0 0), Burner (returns 0 0),
                  Burner (returns 0 0), Burner (returns 0 0), Burner (returns 0.5 0),
                  Burner (returns 0 0), Burner (returns 0 (7523517369093265 / 4194304)),
                  Burner (returns 0 (7523517369177151 / 4194304)), Burner (returns 0 0)]
             (init_state ''demo-generator'')) = 1 \<and>
   (7523517369177151 / 4194304 :: real) - 7523517369093265 / 4194304 < 0.02 * real_of_int 1 \<and>
   effects (exec [Request (Some 1) 0, Burner (returns 0 0), Burner (returns 0 0),
                  Burner (returns 0 0), Burner (returns 0 0), Burner (returns 0.5 0),
                  Burner (returns 0 0), Burner (returns 0 100), Burner (returns 0 100.01),
                  Burner (returns 0 100.5), Burner (returns 0 0)]
             (init_state ''demo-generator''))
     = [Clock 100, Clock 100.01, Clock 100.5, Sleep 0.05] \<and>
   lvl (exec [Request (Some 1) 0, Burner (returns 0 0), Burner (returns 0 0),
                  Burner (returns 0 0), Burner (returns 0 0), Burner (returns 0.5 0),
                  Burner (returns 0 0), Burner (returns 0 100), Burner (returns 0 100.01),
                  Burner (returns 0 100.5), Burner (returns 0 0)]
             (init_state ''demo-generator'')) = 1 \<and>
   0.02 * real_of_int 1 + 0.02 < (100.5 :: real) - 100"
  by (simp add: init_state_def burn_endpoint_def level_query_def burn_raises step_def returns_def
      deadline_level_1_at_100 deadline_level_1_at_q37)

section \<open>Exceptions inside the loop\<close>

lemma dead_step: "pc s = Terminated e \<Longrightarrow> step i s = s"
  by (simp add: step_def)

lemma dead_forever: "pc s = Terminated e \<Longrightarrow> cpu_burner ins s = s"
  by (induction ins) (simp_all add: dead_step)

lemma cpu_burner_logger: "logger (cpu_burner ins s) = logger s"
  by (induction ins arbitrary: s) (simp_all add: step_logger)

lemma step_alive: "fault i = None \<Longrightarrow> \<not> dead s \<Longrightarrow> \<not> dead (step i s)"
  by (cases "pc s") (simp_all add: dead_def step_def)

lemma cpu_burner_alive:
  "\<forall>i \<in> set ins. fault i = None \<Longrightarrow> \<not> dead s \<Longrightarrow> \<not> dead (cpu_burner ins s)"
  by (induction ins arbitrary: s) (simp_all add: step_alive)

lemma step_fault:
  assumes "pc s \<in> {SetCpuGauge, SetRandomGauge, IdleSleep, SetDeadline, Spin, CoolSleep}"
    and "fault i = Some e"
  shows "step i s = s\<lparr>pc := Terminated e\<rparr>"
  using assms by (cases "pc s") (simp_all add: step_def)

text \<open>
  Claim C7, as the code has it. \<^verbatim>\<open>cpu_burner\<close> has no \<^verbatim>\<open>try\<close>: when a library call of
  an iteration raises, the exception leaves the function and the thread ends where it
  stands, whatever steps are scheduled afterwards; the loop never calls \<^verbatim>\<open>log\<close>, so
  nothing is logged; as long as no call raises, the loop does not end.
\<close>

theorem burner_fault_ends_loop:
  "(pc s \<in> {SetCpuGauge, SetRandomGauge, IdleSleep, SetDeadline, Spin, CoolSleep} \<and>
    fault i = Some e \<longrightarrow> cpu_burner (i # ins) s = s\<lparr>pc := Terminated e\<rparr>) \<and>
   logger (cpu_burner ins s) = logger s \<and>
   ((\<forall>k \<in> set ins. fault k = None) \<and> \<not> dead s \<longrightarrow> \<not> dead (cpu_burner ins s))"
proof (intro conjI impI)
  assume h: "pc s \<in> {SetCpuGauge, SetRandomGauge, IdleSleep, SetDeadline, Spin, CoolSleep} \<and>
    fault i = Some e"
  then have "step i s = s\<lparr>pc := Terminated e\<rparr>"
    by (intro step_fault) simp_all
  moreover have "cpu_burner ins (s\<lparr>pc := Terminated e\<rparr>) = s\<lparr>pc := Terminated e\<rparr>"
    by (rule dead_forever [of _ e]) simp
  ultimately show "cpu_burner (i # ins) s = s\<lparr>pc := Terminated e\<rparr>"
    by simp
next
  show "logger (cpu_burner ins s) = logger s"
    by (rule cpu_burner_logger)
next
  assume "(\<forall>k \<in> set ins. fault k = None) \<and> \<not> dead s"
  then show "\<not> dead (cpu_burner ins s)"
    by (simp add: cpu_burner_alive)
qed

theorem burner_fault_ends_loop_witness:
  "pc (cpu_burner [returns 0 0, returns 0 0, returns 0 0] (init_state ''demo-generator''))
     = SetCpuGauge \<and>
   fault (raises (Fault ''gauge'')) = Some (Fault ''gauge'') \<and>
   pc (cpu_burner (raises (Fault ''gauge'') # [returns 0 0, returns 0 0])
         (cpu_burner [returns 0 0, returns 0 0, returns 0 0] (init_state ''demo-generator'')))
     = Terminated (Fault ''gauge'') \<and>
   logger (cpu_burner [returns 0 0, returns 0 0]
         (cpu_burner [returns 0 0, returns 0 0, returns 0 0] (init_state ''demo-generator''))) = [] \<and>
   \<not> dead (init_state ''demo-generator'') \<and>
   \<not> dead (cpu_burner [returns 0 0, returns 0 0, returns 0 0, returns 0 0, returns 0 0,
                        returns 0 0, returns 0 0, returns 0 0] (init_state ''demo-generator''))"
  using burner_fault_ends_loop [where
      s = "cpu_burner [returns 0 0, returns 0 0, returns 0 0] (init_state ''demo-generator'')"
      and i = "raises (Fault ''gauge'')" and e = "Fault ''gauge''"
      and ins = "[returns 0 0, returns 0 0]"]
    burner_fault_ends_loop [where s = "init_state ''demo-generator''"
      and ins = "[returns 0 0, returns 0 0, returns 0 0, returns 0 0, returns 0 0,
                  returns 0 0, returns 0 0, returns 0 0]"]
  by (simp add: init_state_def step_def returns_def raises_def dead_def)

text \<open>
  Claim C7 as stated (the condition is logged and the loop continues) fails when
  \<^verbatim>\<open>CPU_BURN.set\<close> raises in the first iteration: the thread is dead after any number of
  further steps, the logger has received nothing, and no sleep or clock reading follows.
\<close>

theorem burner_fault_not_survived_counterexample:
  "pc (cpu_burner [returns 0 0, returns 0 0, returns 0 0, raises (Fault ''gauge''),
                   returns 0 0, returns 0 0, returns 0 0, returns 0 0]
         (init_state ''demo-generator'')) = Terminated (Fault ''gauge'') \<and>
   logger (cpu_burner [returns 0 0, returns 0 0, returns 0 0, raises (Fault ''gauge''),
                   returns 0 0, returns 0 0, returns 0 0, returns 0 0]
         (init_state ''demo-generator'')) = [] \<and>
   effects (cpu_burner [returns 0 0, returns 0 0, returns 0 0, raises (Fault ''gauge''),
                   returns 0 0, returns 0 0, returns 0 0, returns 0 0]
         (init_state ''demo-generator'')) = []"
  by (simp add: init_state_def step_def returns_def raises_def)

end
